theory Spec2Isabelle
  imports Complex_Main "HOL-Library.AList"
begin

section \<open>The AI text detector of \<^verbatim>\<open>src/api/detect.py\<close>\<close>

text \<open>
  A shallow embedding of the class \<^verbatim>\<open>AIDetectorModel\<close>: the tokenizer, the feature
  extractor, the scorer and the decision step of \<^verbatim>\<open>predict\<close>.

  \<^item> A Python \<^verbatim>\<open>str\<close> is a list of code points (\<open>pystr\<close>); \<open>str\<close> turns an ASCII
    literal into one.
  \<^item> What Python decides from its Unicode tables for a code point beyond ASCII
    (whether it is whitespace, whether \<^verbatim>\<open>\w\<close> matches it, what \<^verbatim>\<open>lower()\<close> makes of a
    string that holds one) is a parameter \<open>U\<close> of every function that depends on it.
    On ASCII the functions are fixed, and every theorem holds for every \<open>U\<close>.
  \<^item> A Python \<^verbatim>\<open>float\<close> is a real number: arithmetic is exact. The one float effect
    that changes the control flow is kept: \<^verbatim>\<open>math.exp\<close> raises \<^verbatim>\<open>OverflowError\<close> when
    its result leaves the range of a double.
    The decision between the labels, which the rounding of the doubles can change, is
    proved for every float arithmetic.
  \<^item> A \<^verbatim>\<open>dict\<close> is an association list in insertion order; an assignment
    \<^verbatim>\<open>d[k] = v\<close> is \<open>AList.update k v d\<close>.
\<close>

subsection \<open>Strings and character classes\<close>

type_synonym pystr = "nat list"

definition str :: "string \<Rightarrow> pystr" where
  "str s = map of_char s"

record unicode =
  u_space :: "nat \<Rightarrow> bool"
  u_word :: "nat \<Rightarrow> bool"
  u_lower :: "pystr \<Rightarrow> pystr"

text \<open>A table that knows nothing beyond ASCII, for evaluating ASCII inputs.\<close>

definition no_unicode :: unicode where
  "no_unicode = \<lparr>u_space = (\<lambda>c. False), u_word = (\<lambda>c. False), u_lower = (\<lambda>s. s)\<rparr>"

text \<open>The class \<^verbatim>\<open>[a-z]\<close>.\<close>

definition is_lower_az :: "nat \<Rightarrow> bool" where
  "is_lower_az c = (97 \<le> c \<and> c \<le> 122)"

text \<open>The class \<^verbatim>\<open>[a-zA-Z]\<close>.\<close>

definition is_letter :: "nat \<Rightarrow> bool" where
  "is_letter c = ((65 \<le> c \<and> c \<le> 90) \<or> (97 \<le> c \<and> c \<le> 122))"

text \<open>The class \<^verbatim>\<open>\w\<close> of a \<^verbatim>\<open>str\<close> pattern: on ASCII, letters, digits and the underscore.\<close>

definition is_word :: "unicode \<Rightarrow> nat \<Rightarrow> bool" where
  "is_word U c =
     (if c < 128 then is_letter c \<or> (48 \<le> c \<and> c \<le> 57) \<or> c = 95 else u_word U c)"

text \<open>
  What \<^verbatim>\<open>str.strip()\<close> removes: on ASCII, the characters 9 to 13, 28 to 31 and the
  space.
\<close>

definition is_space :: "unicode \<Rightarrow> nat \<Rightarrow> bool" where
  "is_space U c =
     (if c < 128 then (9 \<le> c \<and> c \<le> 13) \<or> (28 \<le> c \<and> c \<le> 32) else u_space U c)"

definition strip :: "unicode \<Rightarrow> pystr \<Rightarrow> pystr" where
  "strip U s = rev (dropWhile (is_space U) (rev (dropWhile (is_space U) s)))"

definition lower_char :: "nat \<Rightarrow> nat" where
  "lower_char c = (if 65 \<le> c \<and> c \<le> 90 then c + 32 else c)"

text \<open>\<^verbatim>\<open>str.lower()\<close>: character by character on an ASCII string.\<close>

definition py_lower :: "unicode \<Rightarrow> pystr \<Rightarrow> pystr" where
  "py_lower U s = (if list_all (\<lambda>c. c < 128) s then map lower_char s else u_lower U s)"

text \<open>\<^verbatim>\<open>sep.join(xs)\<close>.\<close>

fun join :: "pystr \<Rightarrow> pystr list \<Rightarrow> pystr" where
  "join sep [] = []"
| "join sep [x] = x"
| "join sep (x # y # ys) = x @ sep @ join sep (y # ys)"

text \<open>
  \<^verbatim>\<open>\b\<close> right after a word character: the string ends there, or a character that
  is not a word character follows.
\<close>

fun boundary_after :: "unicode \<Rightarrow> pystr \<Rightarrow> bool" where
  "boundary_after U [] = True"
| "boundary_after U (q # qs) = (\<not> is_word U q)"

subsection \<open>Tokenizer\<close>

text \<open>
  \<^verbatim>\<open>re.split(r'[.!?]+', text)\<close>: the pieces between the maximal runs of terminators,
  the empty pieces at both ends included.
\<close>

definition is_terminator :: "nat \<Rightarrow> bool" where
  "is_terminator c = (c = 46 \<or> c = 33 \<or> c = 63)"

function re_split_terminators :: "pystr \<Rightarrow> pystr list" where
  "re_split_terminators s =
     (let piece = takeWhile (\<lambda>c. \<not> is_terminator c) s;
          rest = dropWhile (\<lambda>c. \<not> is_terminator c) s
      in if rest = [] then [piece]
         else piece # re_split_terminators (dropWhile is_terminator rest))"
  by pat_completeness auto
termination
proof (relation "measure length")
  fix s piece rest :: pystr
  assume r: "rest = dropWhile (\<lambda>c. \<not> is_terminator c) s" and ne: "rest \<noteq> []"
  from ne obtain q qs where q: "rest = q # qs"
    by (cases rest) auto
  have "is_terminator (hd rest)"
    using hd_dropWhile [of "\<lambda>c. \<not> is_terminator c" s] r ne by simp
  with q have "length (dropWhile is_terminator rest) \<le> length qs"
    by (simp add: length_dropWhile_le)
  also have "length qs < length rest"
    using q by simp
  also have "length rest \<le> length s"
    unfolding r by (rule length_dropWhile_le)
  finally show "(dropWhile is_terminator rest, s) \<in> measure length"
    by simp
qed simp

declare re_split_terminators.simps [simp del]

text \<open>\<^verbatim>\<open>_split_sentences\<close>, lines 106 to 110.\<close>

definition split_sentences :: "unicode \<Rightarrow> pystr \<Rightarrow> pystr list" where
  "split_sentences U text' =
     (let sentences = re_split_terminators text'
      in map (strip U) (filter (\<lambda>s. strip U s \<noteq> []) sentences))"

text \<open>
  \<^verbatim>\<open>re.findall(r'\b[a-zA-Z]+\b', text)\<close>, scanning from the left; \<open>pw\<close> says whether the
  character before the current position is a word character. A match starts where
  \<^verbatim>\<open>\b\<close> holds in front of a letter, takes the whole run of letters, and needs \<^verbatim>\<open>\b\<close>
  behind it; a shorter run never ends at a \<^verbatim>\<open>\b\<close>, since letters stand on both
  sides. After a match the scan goes on behind it, otherwise at the next character.
\<close>

function tokenize_from :: "unicode \<Rightarrow> bool \<Rightarrow> pystr \<Rightarrow> pystr list" where
  "tokenize_from U pw [] = []"
| "tokenize_from U pw (c # cs) =
     (if \<not> pw \<and> is_letter c then
        (let run = takeWhile is_letter (c # cs); rest = dropWhile is_letter (c # cs)
         in if boundary_after U rest
            then run # tokenize_from U True rest
            else tokenize_from U (is_word U c) cs)
      else tokenize_from U (is_word U c) cs)"
  by pat_completeness auto
termination
  by (relation "measure (\<lambda>(U, pw, s). length s)")
     (auto simp: le_imp_less_Suc length_dropWhile_le)

text \<open>\<^verbatim>\<open>_tokenize\<close>, lines 112 to 116.\<close>

definition tokenize :: "unicode \<Rightarrow> pystr \<Rightarrow> pystr list" where
  "tokenize U text' = tokenize_from U False text'"

text \<open>
  \<^verbatim>\<open>re.findall(r"\b\w+'[a-z]+\b", s)\<close>: a whole run of word characters that starts at
  a \<^verbatim>\<open>\b\<close>, an apostrophe, a whole run of \<^verbatim>\<open>[a-z]\<close>, and \<^verbatim>\<open>\b\<close> behind it.
\<close>

function findall_contractions :: "unicode \<Rightarrow> bool \<Rightarrow> pystr \<Rightarrow> pystr list" where
  "findall_contractions U pw [] = []"
| "findall_contractions U pw (c # cs) =
     (if \<not> pw \<and> is_word U c then
        (let stem = takeWhile (is_word U) (c # cs);
             suffix = takeWhile is_lower_az (tl (dropWhile (is_word U) (c # cs)));
             rest = dropWhile is_lower_az (tl (dropWhile (is_word U) (c # cs)))
         in if take 1 (dropWhile (is_word U) (c # cs)) = [39] \<and> suffix \<noteq> []
               \<and> boundary_after U rest
            then (stem @ [39] @ suffix) # findall_contractions U True rest
            else findall_contractions U True cs)
      else findall_contractions U (is_word U c) cs)"
  by pat_completeness auto
termination
proof (relation "measure (\<lambda>(U, pw, s). length s)")
  fix U :: unicode and pw :: bool and c :: nat and cs stem suffix rest :: pystr
  assume w: "\<not> pw \<and> is_word U c"
    and r: "rest = dropWhile is_lower_az (tl (dropWhile (is_word U) (c # cs)))"
  have "length rest \<le> length (tl (dropWhile (is_word U) (c # cs)))"
    unfolding r by (rule length_dropWhile_le)
  also have "\<dots> \<le> length (dropWhile (is_word U) (c # cs))"
    by simp
  also have "\<dots> = length (dropWhile (is_word U) cs)"
    using w by simp
  also have "\<dots> \<le> length cs"
    by (rule length_dropWhile_le)
  finally show "((U, True, rest), (U, pw, c # cs)) \<in> measure (\<lambda>(U, pw, s). length s)"
    by simp
qed simp_all

subsection \<open>Feature extractor\<close>

text \<open>\<^verbatim>\<open>_calculate_repetition\<close>, lines 118 to 135.\<close>

definition calculate_repetition :: "unicode \<Rightarrow> pystr list \<Rightarrow> real" where
  "calculate_repetition U words =
     (if length words < 4 then 0
      else
        let trigrams =
              map (\<lambda>i. py_lower U (join (str '' '') (take 3 (drop i words))))
                [0 ..< length words - 2]
        in if trigrams = [] then 0
           else
             let unique_trigrams = set trigrams;
                 repetition_ratio = 1 - real (card unique_trigrams) / real (length trigrams)
             in repetition_ratio)"

definition informal_markers :: "pystr list" where
  "informal_markers = map str
     [''gonna'', ''wanna'', ''kinda'', ''sorta'', ''yeah'', ''yep'',
      ''nope'', ''ok'', ''okay'', ''hey'', ''hi'', ''well'', ''like'',
      ''actually'', ''basically'', ''literally'', ''totally'']"

text \<open>\<^verbatim>\<open>_calculate_formality\<close>, lines 137 to 155.\<close>

definition calculate_formality :: "unicode \<Rightarrow> pystr \<Rightarrow> pystr list \<Rightarrow> real" where
  "calculate_formality U text' words =
     (if words = [] then 0.5
      else
        let contractions = findall_contractions U False (py_lower U text');
            contraction_ratio = real (length contractions) / real (length words);
            informal_count = length (filter (\<lambda>word. py_lower U word \<in> set informal_markers) words);
            informal_ratio = real informal_count / real (length words);
            formality = 1 - (contraction_ratio * 2 + informal_ratio)
        in max 0 (min 1 formality))"

definition conjunctions :: "pystr list" where
  "conjunctions = map str
     [''and'', ''but'', ''or'', ''so'', ''yet'', ''for'', ''nor'', ''although'',
      ''because'', ''since'', ''while'', ''whereas'', ''however'', ''therefore'',
      ''moreover'', ''furthermore'', ''additionally'', ''consequently'']"

definition first_person :: "pystr list" where
  "first_person = map str
     [''i'', ''me'', ''my'', ''mine'', ''myself'', ''we'', ''us'', ''our'', ''ours'',
      ''ourselves'']"

definition passive_indicators :: "pystr list" where
  "passive_indicators = map str
     [''was'', ''were'', ''been'', ''being'', ''is'', ''are'', ''am'']"

text \<open>The characters of \<^verbatim>\<open>'.,!?;:"-()[]{}'\<close>; 34 is the double quote.\<close>

definition punctuation_chars :: pystr where
  "punctuation_chars = str ''.,!?;:'' @ [34] @ str ''-()[]{}''"

definition clause_chars :: pystr where
  "clause_chars = str '',;:''"

text \<open>
  \<^verbatim>\<open>extract_features\<close>, lines 48 to 104. The dict is built key by key, as the source
  does; every quotient keeps the source's guard.
\<close>

definition extract_features :: "unicode \<Rightarrow> pystr \<Rightarrow> (pystr \<times> real) list" where
  "extract_features U text' =
     (if text' = [] \<or> length (strip U text') = 0 then []
      else
        let sentences = split_sentences U text';
            words = tokenize U text'
        in if length words = 0 \<or> length sentences = 0 then []
           else
             let f0 = [];
                 sentence_lengths = map (\<lambda>s. length (tokenize U s)) sentences;
                 f1 = AList.update (str ''avg_sentence_length'')
                        (if sentence_lengths \<noteq> []
                         then real (sum_list sentence_lengths) / real (length sentence_lengths)
                         else 0) f0;
                 unique_words = set (map (py_lower U) words);
                 f2 = AList.update (str ''vocabulary_richness'')
                        (if words \<noteq> [] then real (card unique_words) / real (length words)
                         else 0) f1;
                 punctuation_count = length (filter (\<lambda>char. char \<in> set punctuation_chars) text');
                 f3 = AList.update (str ''punctuation_density'')
                        (if words \<noteq> [] then real punctuation_count / real (length words)
                         else 0) f2;
                 conjunction_count =
                   length (filter (\<lambda>word. py_lower U word \<in> set conjunctions) words);
                 f4 = AList.update (str ''conjunction_freq'')
                        (if words \<noteq> [] then real conjunction_count / real (length words)
                         else 0) f3;
                 first_person_count =
                   length (filter (\<lambda>word. py_lower U word \<in> set first_person) words);
                 f5 = AList.update (str ''first_person_freq'')
                        (if words \<noteq> [] then real first_person_count / real (length words)
                         else 0) f4;
                 passive_count =
                   length (filter (\<lambda>word. py_lower U word \<in> set passive_indicators) words);
                 f6 = AList.update (str ''passive_voice_freq'')
                        (if words \<noteq> [] then real passive_count / real (length words)
                         else 0) f5;
                 f7 = AList.update (str ''avg_word_length'')
                        (if words \<noteq> []
                         then real (sum_list (map length words)) / real (length words)
                         else 0) f6;
                 clause_markers = length (filter (\<lambda>char. char \<in> set clause_chars) text');
                 f8 = AList.update (str ''sentence_complexity'')
                        (if sentences \<noteq> [] then real clause_markers / real (length sentences)
                         else 0) f7;
                 f9 = AList.update (str ''repetition_score'') (calculate_repetition U words) f8;
                 f10 = AList.update (str ''formality_score'')
                         (calculate_formality U text' words) f9
             in f10)"

subsection \<open>Scorer and decision\<close>

datatype py_error = OverflowError

text \<open>The model's parameters, lines 34 to 46.\<close>

definition coefficients :: "(pystr \<times> real) list" where
  "coefficients =
     [(str ''avg_sentence_length'', 0.025),
      (str ''vocabulary_richness'', - 1.5),
      (str ''punctuation_density'', - 0.5),
      (str ''conjunction_freq'', 0.6),
      (str ''first_person_freq'', - 1.5),
      (str ''passive_voice_freq'', 0.8),
      (str ''avg_word_length'', 0.4),
      (str ''sentence_complexity'', 0.5),
      (str ''repetition_score'', 1.0),
      (str ''formality_score'', 1.2)]"

definition intercept :: real where
  "intercept = 0.4"

text \<open>The normalisation of one feature, lines 181 to 187.\<close>

definition normalize :: "pystr \<Rightarrow> real \<Rightarrow> real" where
  "normalize feature_name v =
     (if feature_name = str ''avg_sentence_length'' then (v - 15) / 10
      else if feature_name = str ''avg_word_length'' then (v - 5) / 2
      else if feature_name = str ''sentence_complexity'' then (v - 1) / 2
      else v)"

text \<open>The loop over the coefficients, lines 177 to 189.\<close>

definition logit_of :: "(pystr \<times> real) list \<Rightarrow> real" where
  "logit_of feats =
     fold (\<lambda>(feature_name, coefficient) logit.
             case map_of feats feature_name of
               None \<Rightarrow> logit
             | Some v \<Rightarrow> logit + coefficient * normalize feature_name v)
       coefficients intercept"

text \<open>
  \<^verbatim>\<open>math.exp\<close>: it raises \<^verbatim>\<open>OverflowError\<close> when the result is beyond the doubles, which
  end below \<open>2 ^ 1024\<close>.
\<close>

definition math_exp :: "real \<Rightarrow> py_error + real" where
  "math_exp x = (if 2 ^ 1024 \<le> exp x then Inl OverflowError else Inr (exp x))"

text \<open>Rounding to the nearest integer, a tie to the even one.\<close>

definition round_half_even :: "real \<Rightarrow> int" where
  "round_half_even x =
     (let f = \<lfloor>x\<rfloor>; d = x - of_int f
      in if d < 1 / 2 then f
         else if 1 / 2 < d then f + 1
         else if even f then f else f + 1)"

text \<open>\<^verbatim>\<open>round(x, ndigits)\<close> of a float, for \<open>ndigits\<close> at least 0.\<close>

definition py_round :: "real \<Rightarrow> nat \<Rightarrow> real" where
  "py_round x ndigits = of_int (round_half_even (x * 10 ^ ndigits)) / 10 ^ ndigits"

text \<open>\<^verbatim>\<open>d.get(key, default)\<close>.\<close>

definition dict_get :: "(pystr \<times> real) list \<Rightarrow> pystr \<Rightarrow> real \<Rightarrow> real" where
  "dict_get d k dflt = (case map_of d k of None \<Rightarrow> dflt | Some v \<Rightarrow> v)"

text \<open>
  The dict that \<^verbatim>\<open>predict\<close> returns. The key \<^verbatim>\<open>word_count\<close> is \<open>None\<close> where the dict
  has no such key.
\<close>

record score_result =
  prediction :: pystr
  confidence :: real
  ai_probability :: real
  human_probability :: real
  word_count :: "nat option"
  features :: "(pystr \<times> real) list"
  message :: pystr

text \<open>
  \<^verbatim>\<open>predict\<close> from line 176 on, where \<^verbatim>\<open>features\<close> is not empty: the logit, the
  sigmoid, the decision and the result, in exact arithmetic. The doubles of the source
  agree with it up to rounding; where a probability is within that rounding of 0.6 their
  label can differ, so the decision rule is stated on \<open>predict_scored_fl\<close> below, of
  which this is the instance \<open>exact_floats\<close>.
\<close>

definition predict_scored :: "unicode \<Rightarrow> pystr \<Rightarrow> (pystr \<times> real) list \<Rightarrow> py_error + score_result"
  where
  "predict_scored U text' feats =
     (let logit = logit_of feats
      in case math_exp (- logit) of
           Inl e \<Rightarrow> Inl e
         | Inr ex \<Rightarrow>
             let ai_p = 1 / (1 + ex);
                 human_p = 1 - ai_p;
                 (label, conf) =
                   (if 0.6 < ai_p then (str ''AI'', ai_p)
                    else if 0.6 < human_p then (str ''Human'', human_p)
                    else (str ''Uncertain'', max ai_p human_p));
                 n_words = length (tokenize U text')
             in Inr \<lparr>prediction = label,
                     confidence = py_round (conf * 100) 1,
                     ai_probability = py_round (ai_p * 100) 1,
                     human_probability = py_round (human_p * 100) 1,
                     word_count = Some n_words,
                     features =
                       [(str ''avg_sentence_length'',
                           py_round (dict_get feats (str ''avg_sentence_length'') 0) 2),
                        (str ''vocabulary_richness'',
                           py_round (dict_get feats (str ''vocabulary_richness'') 0 * 100) 1),
                        (str ''formality_score'',
                           py_round (dict_get feats (str ''formality_score'') 0 * 100) 1)],
                     message =
                       str ''Analysis complete. The text appears to be ''
                       @ py_lower U label @ str ''-''
                       @ (if label = str ''AI'' then str ''generated'' else str ''written'')
                       @ str ''.''\<rparr>)"

text \<open>\<^verbatim>\<open>predict\<close>, lines 157 to 221.\<close>

definition predict :: "unicode \<Rightarrow> pystr \<Rightarrow> py_error + score_result" where
  "predict U text' =
     (let feats = extract_features U text'
      in if feats = [] then
           Inr \<lparr>prediction = str ''Unknown'',
                confidence = 0.0,
                ai_probability = 0.5,
                human_probability = 0.5,
                word_count = None,
                features = [],
                message = str ''Text too short or invalid for analysis''\<rparr>
         else predict_scored U text' feats)"

subsection \<open>Scorer and decision over any float arithmetic\<close>

text \<open>
  Near the threshold 0.6 the label depends on how the doubles round, so the decision is
  also modelled with the float operations left open: what is proved of it holds of the
  doubles as of exact arithmetic.
\<close>

text \<open>
  The operations of the doubles that lines 176 to 221 use, as parameters: what a decimal
  literal denotes, the four operations, \<^verbatim>\<open>math.exp\<close> and \<^verbatim>\<open>round\<close>. Comparisons,
  \<^verbatim>\<open>max\<close> and negation are exact on doubles, and so are the integers 1, 2, 5, 10, 15
  and 100.
\<close>

record float_ops =
  fl_lit :: "real \<Rightarrow> real"
  fl_add :: "real \<Rightarrow> real \<Rightarrow> real"
  fl_sub :: "real \<Rightarrow> real \<Rightarrow> real"
  fl_mul :: "real \<Rightarrow> real \<Rightarrow> real"
  fl_div :: "real \<Rightarrow> real \<Rightarrow> real"
  fl_exp :: "real \<Rightarrow> py_error + real"
  fl_round :: "real \<Rightarrow> nat \<Rightarrow> real"


text \<open>Lines 181 to 187.\<close>

definition normalize_fl :: "float_ops \<Rightarrow> pystr \<Rightarrow> real \<Rightarrow> real" where
  "normalize_fl F feature_name v =
     (if feature_name = str ''avg_sentence_length'' then fl_div F (fl_sub F v 15) 10
      else if feature_name = str ''avg_word_length'' then fl_div F (fl_sub F v 5) 2
      else if feature_name = str ''sentence_complexity'' then fl_div F (fl_sub F v 1) 2
      else v)"

text \<open>Lines 177 to 189.\<close>

definition logit_fl :: "float_ops \<Rightarrow> (pystr \<times> real) list \<Rightarrow> real" where
  "logit_fl F feats =
     fold (\<lambda>(feature_name, coefficient) logit.
             case map_of feats feature_name of
               None \<Rightarrow> logit
             | Some v \<Rightarrow>
                 fl_add F logit (fl_mul F (fl_lit F coefficient) (normalize_fl F feature_name v)))
       coefficients (fl_lit F intercept)"

text \<open>
  Line 192: the value of \<^verbatim>\<open>ai_probability\<close>, or the error of \<^verbatim>\<open>math.exp\<close>. The divisor
  is at least 1 in doubles.
\<close>

definition ai_probability_fl :: "float_ops \<Rightarrow> (pystr \<times> real) list \<Rightarrow> py_error + real" where
  "ai_probability_fl F feats =
     (case fl_exp F (- logit_fl F feats) of
        Inl e \<Rightarrow> Inl e
      | Inr ex \<Rightarrow> Inr (fl_div F 1 (fl_add F 1 ex)))"

text \<open>
  Lines 176 to 221 for any such arithmetic; \<open>feats\<close> is the dict that
  \<^verbatim>\<open>extract_features\<close> returned, with the values the doubles hold.
\<close>

definition predict_scored_fl ::
  "float_ops \<Rightarrow> unicode \<Rightarrow> pystr \<Rightarrow> (pystr \<times> real) list \<Rightarrow> py_error + score_result"
  where
  "predict_scored_fl F U text' feats =
     (case ai_probability_fl F feats of
        Inl e \<Rightarrow> Inl e
      | Inr ai_p \<Rightarrow>
          let human_p = fl_sub F 1 ai_p;
              (label, conf) =
                (if fl_lit F 0.6 < ai_p then (str ''AI'', ai_p)
                 else if fl_lit F 0.6 < human_p then (str ''Human'', human_p)
                 else (str ''Uncertain'', max ai_p human_p));
              n_words = length (tokenize U text')
          in Inr \<lparr>prediction = label,
                  confidence = fl_round F (fl_mul F conf 100) 1,
                  ai_probability = fl_round F (fl_mul F ai_p 100) 1,
                  human_probability = fl_round F (fl_mul F human_p 100) 1,
                  word_count = Some n_words,
                  features =
                    [(str ''avg_sentence_length'',
                        fl_round F (dict_get feats (str ''avg_sentence_length'') 0) 2),
                     (str ''vocabulary_richness'',
                        fl_round F
                          (fl_mul F (dict_get feats (str ''vocabulary_richness'') 0) 100) 1),
                     (str ''formality_score'',
                        fl_round F
                          (fl_mul F (dict_get feats (str ''formality_score'') 0) 100) 1)],
                  message =
                    str ''Analysis complete. The text appears to be ''
                    @ py_lower U label @ str ''-''
                    @ (if label = str ''AI'' then str ''generated'' else str ''written'')
                    @ str ''.''\<rparr>)"

subsection \<open>Maximal runs\<close>

text \<open>
  The maximal non-empty runs of the characters that satisfy \<open>P\<close>, from left to right:
  with \<open>is_letter\<close> the runs that the pattern \<^verbatim>\<open>[a-zA-Z]+\<close> alone would find, as the
  specification words the tokenizer; with \<open>is_word U\<close> the runs of word characters.
\<close>

function maximal_runs :: "(nat \<Rightarrow> bool) \<Rightarrow> pystr \<Rightarrow> pystr list" where
  "maximal_runs P [] = []"
| "maximal_runs P (c # cs) =
     (if P c then takeWhile P (c # cs) # maximal_runs P (dropWhile P cs)
      else maximal_runs P cs)"
  by pat_completeness auto
termination
  by (relation "measure (\<lambda>(P, s). length s)")
     (auto simp: le_imp_less_Suc length_dropWhile_le)

subsection \<open>The specification's trigrams\<close>

text \<open>
  The trigrams as the specification words them, to compare the loop of
  \<^verbatim>\<open>_calculate_repetition\<close> with: the sliding windows of three consecutive words, each
  joined by single spaces (code point 32).
\<close>

fun spec_trigrams :: "pystr list \<Rightarrow> pystr list" where
  "spec_trigrams (a # b # c # ws) = (a @ [32] @ b @ [32] @ c) # spec_trigrams (b # c # ws)"
| "spec_trigrams ws = []"

subsection \<open>Inputs of the examples\<close>

text \<open>The specification's end-to-end example of a human text.\<close>

definition example_text :: pystr where
  "example_text = str ''I think we should go. I feel we are ready. I believe this works.''"

section \<open>Properties\<close>

subsection \<open>Evaluation on concrete inputs\<close>

lemmas char_defs =
  str_def is_letter_def is_word_def is_space_def is_lower_az_def is_terminator_def
  lower_char_def

lemmas eval_defs =
  char_defs strip_def py_lower_def tokenize_def split_sentences_def Let_def
  re_split_terminators.simps

subsection \<open>Words, sentences and the empty feature vector\<close>

lemma mem_dropWhile: "x \<in> set xs \<Longrightarrow> \<not> P x \<Longrightarrow> x \<in> set (dropWhile P xs)"
  by (induction xs) auto

lemma mem_strip: "c \<in> set s \<Longrightarrow> \<not> is_space U c \<Longrightarrow> c \<in> set (strip U s)"
  by (simp add: strip_def mem_dropWhile)

lemma letter_not_space: "is_letter c \<Longrightarrow> \<not> is_space U c"
  by (auto simp: is_letter_def is_space_def)

lemma letter_not_terminator: "is_letter c \<Longrightarrow> \<not> is_terminator c"
  by (auto simp: is_letter_def is_terminator_def)

lemma letter_is_word: "is_letter c \<Longrightarrow> is_word U c"
  by (auto simp: is_letter_def is_word_def)

lemma tokenize_from_match:
  "\<not> pw \<Longrightarrow> is_letter c \<Longrightarrow> boundary_after U (dropWhile is_letter cs) \<Longrightarrow>
   tokenize_from U pw (c # cs) =
     (c # takeWhile is_letter cs) # tokenize_from U True (dropWhile is_letter cs)"
  by (simp add: Let_def)

lemma tokenize_from_skip:
  "pw \<or> \<not> is_letter c \<or> \<not> boundary_after U (dropWhile is_letter cs) \<Longrightarrow>
   tokenize_from U pw (c # cs) = tokenize_from U (is_word U c) cs"
  by (auto simp: Let_def)

lemma tokenize_from_letters:
  "w \<in> set (tokenize_from U pw s) \<Longrightarrow> w \<noteq> [] \<and> list_all is_letter w \<and> set w \<subseteq> set s"
proof (induction s arbitrary: pw rule: length_induct)
  case (1 s)
  show ?case
  proof (cases s)
    case Nil
    with "1.prems" show ?thesis by simp
  next
    case (Cons c cs)
    show ?thesis
    proof (cases "\<not> pw \<and> is_letter c \<and> boundary_after U (dropWhile is_letter cs)")
      case True
      then have eq: "tokenize_from U pw (c # cs) =
          (c # takeWhile is_letter cs) # tokenize_from U True (dropWhile is_letter cs)"
        by (simp add: Let_def)
      from "1.prems" Cons eq have "w = c # takeWhile is_letter cs
          \<or> w \<in> set (tokenize_from U True (dropWhile is_letter cs))"
        by simp
      then show ?thesis
      proof
        assume w: "w = c # takeWhile is_letter cs"
        have "list_all is_letter (takeWhile is_letter cs)"
          by (auto simp: list_all_iff dest: set_takeWhileD)
        moreover have "set (takeWhile is_letter cs) \<subseteq> set cs"
          by (auto dest: set_takeWhileD)
        ultimately show ?thesis
          using w True Cons by auto
      next
        assume w: "w \<in> set (tokenize_from U True (dropWhile is_letter cs))"
        have "length (dropWhile is_letter cs) < length s"
          using Cons by (simp add: le_imp_less_Suc length_dropWhile_le)
        with "1.IH" w
        have "w \<noteq> [] \<and> list_all is_letter w \<and> set w \<subseteq> set (dropWhile is_letter cs)"
          by blast
        moreover have "set (dropWhile is_letter cs) \<subseteq> set cs"
          by (auto dest: set_dropWhileD)
        ultimately show ?thesis
          using Cons by auto
      qed
    next
      case False
      then have "tokenize_from U pw (c # cs) = tokenize_from U (is_word U c) cs"
        by (intro tokenize_from_skip) blast
      with "1.prems" Cons have w: "w \<in> set (tokenize_from U (is_word U c) cs)"
        by simp
      have "length cs < length s"
        using Cons by simp
      with "1.IH" w have "w \<noteq> [] \<and> list_all is_letter w \<and> set w \<subseteq> set cs"
        by blast
      then show ?thesis
        using Cons by auto
    qed
  qed
qed

lemma re_split_covers:
  "c \<in> set s \<Longrightarrow> \<not> is_terminator c \<Longrightarrow> \<exists>p \<in> set (re_split_terminators s). c \<in> set p"
proof (induction s rule: re_split_terminators.induct)
  case (1 s)
  let ?piece = "takeWhile (\<lambda>c. \<not> is_terminator c) s"
  let ?rest = "dropWhile (\<lambda>c. \<not> is_terminator c) s"
  have split: "s = ?piece @ ?rest" by simp
  show ?case
  proof (cases "c \<in> set ?piece")
    case True
    then show ?thesis
      by (subst re_split_terminators.simps) (simp add: Let_def)
  next
    case False
    with "1.prems"(1) split have in_rest: "c \<in> set ?rest"
      by (metis Un_iff set_append)
    then have ne: "?rest \<noteq> []"
      by (metis empty_iff empty_set)
    from in_rest "1.prems"(2) have "c \<in> set (dropWhile is_terminator ?rest)"
      by (rule mem_dropWhile)
    with "1.IH" [OF refl refl ne] "1.prems"(2)
    obtain p where "p \<in> set (re_split_terminators (dropWhile is_terminator ?rest))" "c \<in> set p"
      by blast
    with ne show ?thesis
      by (subst re_split_terminators.simps) (auto simp: Let_def)
  qed
qed

lemma letter_gives_sentence:
  assumes "c \<in> set s" and "is_letter c"
  shows "split_sentences U s \<noteq> []"
proof -
  from assms obtain p where p: "p \<in> set (re_split_terminators s)" "c \<in> set p"
    using re_split_covers letter_not_terminator by blast
  then have "strip U p \<noteq> []"
    using mem_strip [of c p U] letter_not_space [OF assms(2)] by auto
  with p(1) show ?thesis
    by (auto simp: split_sentences_def Let_def filter_empty_conv)
qed

lemma tokenize_gives_letter:
  assumes "tokenize U s \<noteq> []"
  shows "\<exists>c \<in> set s. is_letter c"
proof -
  from assms obtain w where w: "w \<in> set (tokenize_from U False s)"
    by (cases "tokenize_from U False s") (auto simp: tokenize_def)
  then have "w \<noteq> []" "list_all is_letter w" "set w \<subseteq> set s"
    using tokenize_from_letters by blast+
  then show ?thesis
    by (cases w) auto
qed

lemma words_give_sentences: "tokenize U s \<noteq> [] \<Longrightarrow> split_sentences U s \<noteq> []"
  using tokenize_gives_letter letter_gives_sentence by blast

lemma words_give_stripped:
  assumes "tokenize U s \<noteq> []"
  shows "strip U s \<noteq> []"
proof -
  from assms obtain c where c: "c \<in> set s" "is_letter c"
    using tokenize_gives_letter by blast
  then have "c \<in> set (strip U s)"
    by (intro mem_strip letter_not_space)
  then show ?thesis
    by (metis empty_iff empty_set)
qed

lemma extract_features_empty_iff:
  "extract_features U t = [] \<longleftrightarrow>
     (t = [] \<or> strip U t = [] \<or> tokenize U t = [] \<or> split_sentences U t = [])"
  by (simp add: extract_features_def Let_def)

lemma extract_features_keys:
  "extract_features U t \<noteq> [] \<Longrightarrow>
     map fst (extract_features U t) = map fst coefficients"
  by (simp add: extract_features_def Let_def update_keys coefficients_def str_def split: if_splits)

text \<open>
  C10: a text with at least one word token has at least one sentence. So the check
  \<^verbatim>\<open>len(words) == 0 or len(sentences) == 0\<close> of line 57 fires exactly when there are no
  words, and with a word every divisor of the feature extractor (the number of words,
  of sentences and of sentence lengths) is positive.
\<close>

theorem tokens_give_sentences:
  "(tokenize U t \<noteq> [] \<longrightarrow> split_sentences U t \<noteq> [])
   \<and> ((length (tokenize U t) = 0 \<or> length (split_sentences U t) = 0)
        \<longleftrightarrow> length (tokenize U t) = 0)
   \<and> (tokenize U t \<noteq> [] \<longrightarrow>
        0 < length (tokenize U t) \<and> 0 < length (split_sentences U t)
        \<and> 0 < length (map (\<lambda>s. length (tokenize U s)) (split_sentences U t)))"
  using words_give_sentences [of U t] by auto

theorem tokens_give_sentences_witness:
  "tokenize no_unicode (str ''Hi you. Bye'') = [str ''Hi'', str ''you'', str ''Bye'']
   \<and> split_sentences no_unicode (str ''Hi you. Bye'') \<noteq> []
   \<and> tokenize no_unicode (str ''123'') = []
   \<and> split_sentences no_unicode (str ''123'') = [str ''123'']"
proof -
  have t: "tokenize no_unicode (str ''Hi you. Bye'') = [str ''Hi'', str ''you'', str ''Bye'']"
    by (simp add: eval_defs)
  then have "tokenize no_unicode (str ''Hi you. Bye'') \<noteq> []"
    by simp
  with tokens_give_sentences [of no_unicode "str ''Hi you. Bye''"]
  have "split_sentences no_unicode (str ''Hi you. Bye'') \<noteq> []"
    by blast
  moreover have "tokenize no_unicode (str ''123'') = []"
    by (simp add: eval_defs)
  moreover have "split_sentences no_unicode (str ''123'') = [str ''123'']"
    by (simp add: eval_defs)
  ultimately show ?thesis
    using t by simp
qed

text \<open>
  C6: \<^verbatim>\<open>extract_features\<close> returns the empty dict exactly when the text is empty or
  only whitespace, or has no word token, or has no sentence; every other result has
  exactly the ten feature keys.
\<close>

theorem extract_features_empty_or_complete:
  "(extract_features U t = [] \<longleftrightarrow>
      (t = [] \<or> strip U t = [] \<or> tokenize U t = [] \<or> split_sentences U t = []))
   \<and> (extract_features U t \<noteq> [] \<longrightarrow>
        map fst (extract_features U t) =
          map str [''avg_sentence_length'', ''vocabulary_richness'', ''punctuation_density'',
            ''conjunction_freq'', ''first_person_freq'', ''passive_voice_freq'',
            ''avg_word_length'', ''sentence_complexity'', ''repetition_score'',
            ''formality_score''])"
  using extract_features_empty_iff [of U t] extract_features_keys [of U t]
  by (simp add: coefficients_def)

theorem extract_features_empty_or_complete_witness:
  "extract_features no_unicode (str '' ... '') = []
   \<and> tokenize no_unicode (str ''Hi.'') \<noteq> []
   \<and> map fst (extract_features no_unicode (str ''Hi.'')) =
        map str [''avg_sentence_length'', ''vocabulary_richness'', ''punctuation_density'',
          ''conjunction_freq'', ''first_person_freq'', ''passive_voice_freq'',
          ''avg_word_length'', ''sentence_complexity'', ''repetition_score'',
          ''formality_score'']"
proof -
  have a: "tokenize no_unicode (str '' ... '') = []"
    by (simp add: eval_defs)
  have b: "tokenize no_unicode (str ''Hi.'') \<noteq> []" "split_sentences no_unicode (str ''Hi.'') \<noteq> []"
    "strip no_unicode (str ''Hi.'') \<noteq> []" "str ''Hi.'' \<noteq> []"
    by (simp_all add: eval_defs)
  show ?thesis
    using a b extract_features_empty_or_complete [of no_unicode "str '' ... ''"]
      extract_features_empty_or_complete [of no_unicode "str ''Hi.''"]
    by blast
qed

subsection \<open>Repetition and formality\<close>

lemma length_spec_trigrams: "length (spec_trigrams ws) = length ws - 2"
  by (induction ws rule: spec_trigrams.induct) simp_all

lemma str_space: "str '' '' = [32]"
  by (simp add: str_def)

lemma take_3_Cons: "take 3 (a # b # c # ws) = [a, b, c]"
  by (simp add: numeral_3_eq_3)

lemma trigram_loop:
  "map (\<lambda>i. f (join (str '' '') (take 3 (drop i ws)))) [0 ..< length ws - 2]
     = map f (spec_trigrams ws)"
proof (induction ws rule: spec_trigrams.induct)
  case (1 a b c ws)
  have "length (a # b # c # ws) - 2 = Suc (length (b # c # ws) - 2)"
    by simp
  then show ?case
    using 1 by (simp add: map_upt_Suc str_space take_3_Cons del: upt_Suc)
qed simp_all

text \<open>
  C7: from four words on, the repetition score is 1 minus the number of distinct
  lowercased trigrams over the number of trigrams, the trigrams being the sliding windows
  of three consecutive words joined by single spaces; below four words it is 0.
\<close>

theorem repetition_score_spec:
  "(4 \<le> length words \<longrightarrow>
      calculate_repetition U words =
        1 - real (card (set (map (py_lower U) (spec_trigrams words))))
            / real (length (spec_trigrams words)))
   \<and> (length words < 4 \<longrightarrow> calculate_repetition U words = 0)
   \<and> length (spec_trigrams words) = length words - 2"
proof -
  have "4 \<le> length words \<Longrightarrow> spec_trigrams words \<noteq> []"
    using length_spec_trigrams [of words] by (cases "spec_trigrams words") auto
  then show ?thesis
    by (auto simp: calculate_repetition_def Let_def trigram_loop length_spec_trigrams)
qed

theorem repetition_score_spec_witness:
  "calculate_repetition no_unicode (map str [''test'', ''test'', ''test'', ''test'', ''test''])
     = 2 / 3
   \<and> calculate_repetition no_unicode (map str [''a'', ''b'', ''c'']) = 0"
  using repetition_score_spec
    [of "map str [''test'', ''test'', ''test'', ''test'', ''test'']" no_unicode]
    repetition_score_spec [of "map str [''a'', ''b'', ''c'']" no_unicode]
  by (simp add: char_defs py_lower_def)

lemma extract_features_formality:
  "extract_features U t \<noteq> [] \<Longrightarrow>
        map_of (extract_features U t) (str ''formality_score'')
          = Some (calculate_formality U t (tokenize U t))"
  by (simp add: extract_features_def Let_def str_def split: if_splits)

text \<open>
  C8: with at least one word the formality score is 1 minus twice the contraction ratio
  plus the informal word ratio, clamped to the interval from 0 to 1; with no word it is
  0.5; so it always lies between 0 and 1. It is the \<^verbatim>\<open>formality_score\<close> entry of every
  non-empty feature vector.
\<close>

theorem formality_score_clamped:
  "(words \<noteq> [] \<longrightarrow>
      calculate_formality U t words =
        max 0 (min 1 (1 -
          (2 * (real (length (findall_contractions U False (py_lower U t)))
                  / real (length words))
           + real (length (filter (\<lambda>w. py_lower U w \<in> set informal_markers) words))
               / real (length words)))))
   \<and> (words = [] \<longrightarrow> calculate_formality U t words = 0.5)
   \<and> 0 \<le> calculate_formality U t words \<and> calculate_formality U t words \<le> 1
   \<and> (extract_features U t \<noteq> [] \<longrightarrow>
        map_of (extract_features U t) (str ''formality_score'')
          = Some (calculate_formality U t (tokenize U t)))"
proof -
  have "0 \<le> calculate_formality U t words \<and> calculate_formality U t words \<le> 1"
    by (simp add: calculate_formality_def Let_def)
  moreover have "words = [] \<longrightarrow> calculate_formality U t words = 0.5"
    by (simp add: calculate_formality_def)
  moreover have "words \<noteq> [] \<longrightarrow>
      calculate_formality U t words =
        max 0 (min 1 (1 -
          (2 * (real (length (findall_contractions U False (py_lower U t)))
                  / real (length words))
           + real (length (filter (\<lambda>w. py_lower U w \<in> set informal_markers) words))
               / real (length words))))"
    by (simp add: calculate_formality_def Let_def mult.commute)
  ultimately show ?thesis
    using extract_features_formality [of U t] by blast
qed

theorem formality_score_clamped_witness:
  "tokenize no_unicode (str ''1's 2's'') = [str ''s'', str ''s'']
   \<and> findall_contractions no_unicode False (py_lower no_unicode (str ''1's 2's''))
       = [str ''1's'', str ''2's'']
   \<and> calculate_formality no_unicode (str ''1's 2's'') (tokenize no_unicode (str ''1's 2's'')) = 0"
proof -
  have w: "tokenize no_unicode (str ''1's 2's'') = [str ''s'', str ''s'']"
    by (simp add: eval_defs)
  have c: "findall_contractions no_unicode False (py_lower no_unicode (str ''1's 2's''))
       = [str ''1's'', str ''2's'']"
    by (simp add: eval_defs)
  have i: "filter (\<lambda>w. py_lower no_unicode w \<in> set informal_markers) [str ''s'', str ''s''] = []"
    by (simp add: eval_defs informal_markers_def)
  show ?thesis
    using formality_score_clamped [of "[str ''s'', str ''s'']" no_unicode "str ''1's 2's''"]
    by (simp add: w c i)
qed

subsection \<open>Rounding\<close>



subsection \<open>The shape of the result\<close>

lemma predict_degenerate:
  "extract_features U t = [] \<Longrightarrow>
   predict U t = Inr \<lparr>prediction = str ''Unknown'', confidence = 0, ai_probability = 1 / 2,
     human_probability = 1 / 2, word_count = None, features = [],
     message = str ''Text too short or invalid for analysis''\<rparr>"
  by (simp add: predict_def)

lemma predict_nondegenerate:
  "extract_features U t \<noteq> [] \<Longrightarrow> predict U t = predict_scored U t (extract_features U t)"
  by (simp add: predict_def)

lemma predict_scored_overflow:
  "2 ^ 1024 \<le> exp (- logit_of feats) \<Longrightarrow> predict_scored U t feats = Inl OverflowError"
  by (simp add: predict_scored_def math_exp_def)

lemma predict_scored_returns:
  "exp (- logit_of feats) < 2 ^ 1024 \<Longrightarrow> \<exists>r. predict_scored U t feats = Inr r"
  by (simp add: predict_scored_def math_exp_def Let_def split: prod.splits)

lemma predict_scored_fields:
  assumes "predict_scored U t feats = Inr r"
  shows "ai_probability r = py_round (1 / (1 + exp (- logit_of feats)) * 100) 1"
    and "human_probability r = py_round ((1 - 1 / (1 + exp (- logit_of feats))) * 100) 1"
    and "word_count r = Some (length (tokenize U t))"
  using assms
  by (auto simp: predict_scored_def math_exp_def Let_def split: if_splits)

lemma logit_of_ten_features:
  assumes "map fst feats = map fst coefficients"
  shows "logit_of feats =
     0.4
     + 0.025 * ((dict_get feats (str ''avg_sentence_length'') 0 - 15) / 10)
     + (- 1.5) * dict_get feats (str ''vocabulary_richness'') 0
     + (- 0.5) * dict_get feats (str ''punctuation_density'') 0
     + 0.6 * dict_get feats (str ''conjunction_freq'') 0
     + (- 1.5) * dict_get feats (str ''first_person_freq'') 0
     + 0.8 * dict_get feats (str ''passive_voice_freq'') 0
     + 0.4 * ((dict_get feats (str ''avg_word_length'') 0 - 5) / 2)
     + 0.5 * ((dict_get feats (str ''sentence_complexity'') 0 - 1) / 2)
     + 1.0 * dict_get feats (str ''repetition_score'') 0
     + 1.2 * dict_get feats (str ''formality_score'') 0"
proof -
  from assms obtain v1 v2 v3 v4 v5 v6 v7 v8 v9 v10 where
    "feats = [(str ''avg_sentence_length'', v1), (str ''vocabulary_richness'', v2),
      (str ''punctuation_density'', v3), (str ''conjunction_freq'', v4),
      (str ''first_person_freq'', v5), (str ''passive_voice_freq'', v6),
      (str ''avg_word_length'', v7), (str ''sentence_complexity'', v8),
      (str ''repetition_score'', v9), (str ''formality_score'', v10)]"
    by (auto simp: coefficients_def map_eq_Cons_conv)
  then show ?thesis
    by (simp add: logit_of_def coefficients_def intercept_def normalize_def dict_get_def str_def)
qed

subsection \<open>The examples, evaluated\<close>

lemma exp_nat_ge: "2 ^ n \<le> exp (real n)"
proof -
  have "(2::real) \<le> exp 1"
    using exp_ge_add_one_self [of 1] by simp
  then have "(2::real) ^ n \<le> exp 1 ^ n"
    by (intro power_mono) simp_all
  also have "\<dots> = exp (real n)"
    using exp_of_nat_mult [of n "1::real"] by simp
  finally show ?thesis .
qed

lemma exp_nat_le: "x \<le> real n \<Longrightarrow> exp x \<le> 3 ^ n"
proof -
  assume "x \<le> real n"
  then have "exp x \<le> exp (real n)"
    by simp
  also have "\<dots> = exp 1 ^ n"
    using exp_of_nat_mult [of n "1::real"] by simp
  also have "\<dots> \<le> 3 ^ n"
    by (intro power_mono exp_le) simp
  finally show ?thesis .
qed

lemmas feature_defs =
  extract_features_def calculate_repetition_def calculate_formality_def
  informal_markers_def conjunctions_def first_person_def passive_indicators_def
  punctuation_chars_def clause_chars_def

lemma example_features:
  "extract_features no_unicode example_text =
     [(str ''avg_sentence_length'', 14 / 3), (str ''vocabulary_richness'', 11 / 14),
      (str ''punctuation_density'', 3 / 14), (str ''conjunction_freq'', 0),
      (str ''first_person_freq'', 5 / 14), (str ''passive_voice_freq'', 1 / 14),
      (str ''avg_word_length'', 24 / 7), (str ''sentence_complexity'', 0),
      (str ''repetition_score'', 0), (str ''formality_score'', 1)]"
  by (simp add: example_text_def feature_defs eval_defs card_insert_if)

lemma example_logit: "logit_of (extract_features no_unicode example_text) = - (6337 / 8400)"
  unfolding example_features
  by (simp add: logit_of_def coefficients_def intercept_def normalize_def str_def)

lemma example_words: "length (tokenize no_unicode example_text) = 14"
  by (simp add: example_text_def eval_defs)

lemma example_returns: "\<exists>r. predict no_unicode example_text = Inr r"
proof -
  have ne: "extract_features no_unicode example_text \<noteq> []"
    by (simp add: example_features)
  have "exp (6337 / 8400) \<le> (3::real) ^ 1"
    by (rule exp_nat_le) simp
  then have "exp (- logit_of (extract_features no_unicode example_text)) < 2 ^ 1024"
    by (simp add: example_logit)
  then show ?thesis
    using predict_scored_returns predict_nondegenerate [OF ne] by simp
qed


subsection \<open>The two probabilities\<close>



subsection \<open>The decision\<close>





lemma predict_scored_fl_returns:
  "ai_probability_fl F feats = Inr ai \<Longrightarrow> \<exists>r. predict_scored_fl F U t feats = Inr r"
  by (simp add: predict_scored_fl_def Let_def split: prod.splits)




subsection \<open>The word count and the degenerate result\<close>

text \<open>
  C2 as stated fails: the result for a text of three full stops has no \<^verbatim>\<open>word_count\<close>,
  although the text has 0 word tokens.
\<close>

theorem word_count_missing:
  "predict no_unicode (str ''...'') =
     Inr \<lparr>prediction = str ''Unknown'', confidence = 0, ai_probability = 1 / 2,
       human_probability = 1 / 2, word_count = None, features = [],
       message = str ''Text too short or invalid for analysis''\<rparr>
   \<and> length (tokenize no_unicode (str ''...'')) = 0"
proof -
  have t: "tokenize no_unicode (str ''...'') = []"
    by (simp add: eval_defs)
  then have "extract_features no_unicode (str ''...'') = []"
    by (simp add: extract_features_empty_iff)
  then show ?thesis
    using t by (simp add: predict_degenerate)
qed

text \<open>
  C2, as amended: a result for a non-empty feature vector has the key \<^verbatim>\<open>word_count\<close>,
  the number of word tokens of the whole text; the \<^verbatim>\<open>Unknown\<close> result of the degenerate
  case has no such key.
\<close>

theorem word_count_of_result:
  assumes "predict U t = Inr r"
  shows "word_count r =
           (if extract_features U t = [] then None else Some (length (tokenize U t)))"
proof (cases "extract_features U t = []")
  case True
  with assms show ?thesis
    by (auto simp: predict_degenerate)
next
  case False
  with assms have "predict_scored U t (extract_features U t) = Inr r"
    by (simp add: predict_nondegenerate)
  with False show ?thesis
    by (simp add: predict_scored_fields(3))
qed

theorem word_count_of_result_witness:
  "\<exists>r. predict no_unicode example_text = Inr r \<and> word_count r = Some 14"
proof -
  have ne: "extract_features no_unicode example_text \<noteq> []"
    by (simp add: example_features)
  from example_returns obtain r where r: "predict no_unicode example_text = Inr r" ..
  from word_count_of_result [OF r] ne have "word_count r = Some 14"
    by (simp add: example_words)
  with r show ?thesis
    by blast
qed

text \<open>
  C1 fails on the code: the degenerate result reports both probabilities as 0.5, on the
  scale from 0 to 1, where every other result reports them times 100.
\<close>

theorem predict_empty_text:
  "predict no_unicode [] =
     Inr \<lparr>prediction = str ''Unknown'', confidence = 0, ai_probability = 1 / 2,
       human_probability = 1 / 2, word_count = None, features = [],
       message = str ''Text too short or invalid for analysis''\<rparr>"
  by (rule predict_degenerate) (simp add: extract_features_def)

subsection \<open>Overflow of the exponential\<close>

lemma tokenize_from_no_letters:
  "list_all (\<lambda>c. \<not> is_letter c) s \<Longrightarrow> tokenize_from U pw s = []"
  by (induction s arbitrary: pw) simp_all

lemma findall_contractions_no_word:
  "list_all (\<lambda>c. \<not> is_word U c) s \<Longrightarrow> findall_contractions U pw s = []"
  by (induction s arbitrary: pw) simp_all

lemma hyphen_facts:
  "\<not> is_letter 45" "\<not> is_word U 45" "\<not> is_space U 45" "\<not> is_terminator 45"
  "is_letter 97" "is_word U 97" "\<not> is_space U 97" "\<not> is_terminator 97"
  by (simp_all add: char_defs)

lemma hyphens_tokenize:
  "0 < n \<Longrightarrow> tokenize U (97 # replicate n 45) = [[97]]"
  by (cases n) (simp_all add: tokenize_def hyphen_facts Let_def tokenize_from_no_letters
      list_all_iff)

lemma hyphens_strip: "0 < n \<Longrightarrow> strip U (97 # replicate n 45) = 97 # replicate n 45"
  by (simp add: strip_def hyphen_facts dropWhile_append)

lemma hyphens_sentences:
  "0 < n \<Longrightarrow> split_sentences U (97 # replicate n 45) = [97 # replicate n 45]"
  by (simp add: split_sentences_def re_split_terminators.simps [of "97 # replicate n 45"]
      hyphen_facts hyphens_strip Let_def)

lemma hyphens_lower:
  "py_lower U (97 # replicate n 45) = 97 # replicate n 45" "py_lower U [97] = [97]"
  by (simp_all add: py_lower_def list_all_iff lower_char_def)

lemma hyphens_contractions:
  "0 < n \<Longrightarrow> findall_contractions U False (97 # replicate n 45) = []"
  by (cases n) (simp_all add: hyphen_facts Let_def findall_contractions_no_word list_all_iff)

lemma hyphens_features:
  "0 < n \<Longrightarrow> extract_features U (97 # replicate n 45) =
     [(str ''avg_sentence_length'', 1), (str ''vocabulary_richness'', 1),
      (str ''punctuation_density'', real n), (str ''conjunction_freq'', 0),
      (str ''first_person_freq'', 0), (str ''passive_voice_freq'', 0),
      (str ''avg_word_length'', 1), (str ''sentence_complexity'', 0),
      (str ''repetition_score'', 0), (str ''formality_score'', 1)]"
  by (simp add: feature_defs hyphens_tokenize hyphens_strip hyphens_sentences
      hyphens_contractions hyphens_lower str_def Let_def
      del: findall_contractions.simps tokenize_from.simps)

lemma hyphens_logit:
  "0 < n \<Longrightarrow> logit_of (extract_features U (97 # replicate n 45)) = - (real n / 2) - 197 / 200"
  unfolding hyphens_features
  by (simp add: logit_of_def coefficients_def intercept_def normalize_def str_def)

lemma hyphens_overflow:
  assumes "2048 \<le> n"
  shows "predict U (97 # replicate n 45) = Inl OverflowError"
proof -
  from assms have n: "0 < n" by simp
  have ne: "extract_features U (97 # replicate n 45) \<noteq> []"
    by (simp add: hyphens_features [OF n])
  have "(2::real) ^ 1024 \<le> exp (real 1024)"
    by (rule exp_nat_ge)
  also have "\<dots> \<le> exp (- logit_of (extract_features U (97 # replicate n 45)))"
    using assms by (simp add: hyphens_logit [OF n])
  finally show ?thesis
    by (simp add: predict_nondegenerate [OF ne] predict_scored_overflow)
qed

text \<open>
  C4 fails on the code: on the letter \<^verbatim>\<open>a\<close> followed by 3000 hyphens the punctuation
  density is 3000 and the logit is \<open>- 1500.985\<close>, so \<^verbatim>\<open>math.exp(-logit)\<close> raises
  \<^verbatim>\<open>OverflowError\<close> and no probability is computed. Where the exponential stays in
  range the scorer computes what the claim says: \<open>logit_of_ten_features\<close>,
  \<open>predict_scored_fields\<close>.
\<close>

theorem predict_overflows:
  "predict no_unicode (97 # replicate 3000 45) = Inl OverflowError"
  by (rule hyphens_overflow) simp

subsection \<open>The tokens as runs of word characters\<close>

lemma run_agrees:
  assumes "\<And>x. L x \<Longrightarrow> W x"
    and "dropWhile L cs = [] \<or> \<not> W (hd (dropWhile L cs))"
  shows "takeWhile W cs = takeWhile L cs \<and> dropWhile W cs = dropWhile L cs"
  using assms(2)
proof (induction cs)
  case Nil
  then show ?case by simp
next
  case (Cons c cs)
  then show ?case
    using assms(1) by (cases "L c") auto
qed

lemma boundary_after_iff:
  "boundary_after U r \<longleftrightarrow> (r = [] \<or> \<not> is_word U (hd r))"
  by (cases r) simp_all

lemma dropWhile_id: "r = [] \<or> \<not> P (hd r) \<Longrightarrow> dropWhile P r = r"
  by (cases r) auto

lemma no_boundary_run:
  assumes "\<And>x. L x \<Longrightarrow> W x"
    and "dropWhile L cs \<noteq> []" and "W (hd (dropWhile L cs))"
  shows "\<not> list_all L (takeWhile W cs)"
  using assms(2,3)
proof (induction cs)
  case Nil
  then show ?case by simp
next
  case (Cons c cs)
  then show ?case
    using assms(1) by (cases "L c") auto
qed

lemma tokenize_from_runs:
  "tokenize_from U pw s =
     filter (list_all is_letter)
       (maximal_runs (is_word U) (if pw then dropWhile (is_word U) s else s))"
proof (induction s arbitrary: pw rule: length_induct)
  case (1 s)
  show ?case
  proof (cases s)
    case Nil
    then show ?thesis by simp
  next
    case (Cons c cs)
    have IH: "tokenize_from U b cs =
        filter (list_all is_letter)
          (maximal_runs (is_word U) (if b then dropWhile (is_word U) cs else cs))" for b
      using "1.IH" Cons by simp
    have lw: "is_letter x \<Longrightarrow> is_word U x" for x
      by (rule letter_is_word)
    show ?thesis
    proof (cases "\<not> pw \<and> is_letter c")
      case start: True
      then have wc: "is_word U c"
        by (simp add: lw)
      show ?thesis
      proof (cases "boundary_after U (dropWhile is_letter cs)")
        case True
        then have b: "dropWhile is_letter cs = [] \<or> \<not> is_word U (hd (dropWhile is_letter cs))"
          by (simp add: boundary_after_iff)
        from run_agrees [of is_letter "is_word U", OF lw b]
        have tw: "takeWhile (is_word U) cs = takeWhile is_letter cs"
          and dw: "dropWhile (is_word U) cs = dropWhile is_letter cs"
          by simp_all
        have "length (dropWhile is_letter cs) < length s"
          using Cons by (simp add: le_imp_less_Suc length_dropWhile_le)
        with "1.IH" have "tokenize_from U True (dropWhile is_letter cs) =
            filter (list_all is_letter)
              (maximal_runs (is_word U) (dropWhile (is_word U) (dropWhile is_letter cs)))"
          by simp
        also have "dropWhile (is_word U) (dropWhile is_letter cs) = dropWhile is_letter cs"
          using b by (rule dropWhile_id)
        finally have rest: "tokenize_from U True (dropWhile is_letter cs) =
            filter (list_all is_letter) (maximal_runs (is_word U) (dropWhile is_letter cs))" .
        have all: "list_all is_letter (c # takeWhile is_letter cs)"
          using start by (auto simp: list_all_iff dest: set_takeWhileD)
        have "tokenize_from U pw (c # cs) =
            (c # takeWhile is_letter cs) # tokenize_from U True (dropWhile is_letter cs)"
          using start True by (simp add: tokenize_from_match)
        then show ?thesis
          using start wc all by (simp add: Cons rest tw dw del: tokenize_from.simps)
      next
        case False
        then have nb: "dropWhile is_letter cs \<noteq> []" "is_word U (hd (dropWhile is_letter cs))"
          by (auto simp: boundary_after_iff)
        have "\<not> list_all is_letter (takeWhile (is_word U) cs)"
          using no_boundary_run [of is_letter "is_word U" cs] lw nb by blast
        moreover have "tokenize_from U pw (c # cs) = tokenize_from U (is_word U c) cs"
          using False by (intro tokenize_from_skip) simp
        ultimately show ?thesis
          using start wc by (simp add: Cons IH del: tokenize_from.simps)
      qed
    next
      case False
      then have "tokenize_from U pw (c # cs) = tokenize_from U (is_word U c) cs"
        by (intro tokenize_from_skip) blast
      moreover have "\<not> pw \<Longrightarrow> \<not> is_letter c"
        using False by blast
      ultimately show ?thesis
        by (simp add: Cons IH del: tokenize_from.simps)
    qed
  qed
qed

text \<open>
  C3, as amended: the tokens are, in the order of the text and with their case kept,
  exactly those maximal runs of word characters (letters, digits, the underscore) that
  consist of ASCII letters only. A run of letters next to a digit or an underscore is not
  a token: the \<^verbatim>\<open>\b\<close> of the pattern refuses it.
\<close>

theorem tokenize_word_runs:
  "tokenize U t = filter (list_all is_letter) (maximal_runs (is_word U) t)"
  by (simp add: tokenize_def tokenize_from_runs)

theorem tokenize_word_runs_witness:
  "tokenize no_unicode (str ''Ab c1 d_e, fG-h'') = [str ''Ab'', str ''fG'', str ''h'']
   \<and> maximal_runs (is_word no_unicode) (str ''Ab c1 d_e, fG-h'')
       = [str ''Ab'', str ''c1'', str ''d_e'', str ''fG'', str ''h'']"
proof -
  have "maximal_runs (is_word no_unicode) (str ''Ab c1 d_e, fG-h'')
       = [str ''Ab'', str ''c1'', str ''d_e'', str ''fG'', str ''h'']"
    by (simp add: char_defs)
  then show ?thesis
    using tokenize_word_runs [of no_unicode "str ''Ab c1 d_e, fG-h''"]
    by (simp add: char_defs)
qed

text \<open>
  C3 as stated fails: of \<^verbatim>\<open>abc123 x_y\<close> the maximal runs of letters are \<^verbatim>\<open>abc\<close>, \<^verbatim>\<open>x\<close>
  and \<^verbatim>\<open>y\<close>, and the tokenizer returns none of them.
\<close>

theorem tokenize_skips_adjacent_run:
  "tokenize no_unicode (str ''abc123 x_y'') = []
   \<and> maximal_runs is_letter (str ''abc123 x_y'') = [str ''abc'', str ''x'', str ''y'']"
  by (simp add: eval_defs)

end
